theory Spec2Isabelle
  imports Main "HOL-Library.AList" "HOL-Library.Sublist"
begin

section \<open>JavaScript values\<close>

text \<open>
  The values that reach \<^verbatim>\<open>lib/rest-model.js\<close>: the primitives, arrays, plain objects
  (own enumerable properties in insertion order), \<^verbatim>\<open>Error\<close> objects and functions.
  Numbers are the integer-valued ones (printed in plain decimal) and \<^verbatim>\<open>NaN\<close>. An
  \<^verbatim>\<open>Error\<close> carries the properties assigned to it, its message among them. A
  function carries an identity and its source text, which is what \<^verbatim>\<open>String(f)\<close>
  evaluates to.
\<close>

datatype jsval =
    JUndefined
  | JNull
  | JBool bool
  | JNum int
  | JNaN
  | JStr string
  | JArr "jsval list"
  | JObj "(string \<times> jsval) list"
  | JError "(string \<times> jsval) list"
  | JFun nat string

datatype js_exn = TypeError | Thrown jsval

text \<open>\<^verbatim>\<open>ToBoolean\<close>: what \<^verbatim>\<open>if (v)\<close>, \<^verbatim>\<open>!v\<close>, \<^verbatim>\<open>v && w\<close> and \<^verbatim>\<open>v || w\<close> test.\<close>

fun truthy :: "jsval \<Rightarrow> bool" where
  "truthy JUndefined = False"
| "truthy JNull = False"
| "truthy (JBool b) = b"
| "truthy (JNum n) = (n \<noteq> 0)"
| "truthy JNaN = False"
| "truthy (JStr s) = (s \<noteq> [])"
| "truthy (JArr xs) = True"
| "truthy (JObj ps) = True"
| "truthy (JError ps) = True"
| "truthy (JFun n src) = True"

text \<open>\<^verbatim>\<open>typeof v === 'function'\<close>.\<close>

fun is_function :: "jsval \<Rightarrow> bool" where
  "is_function (JFun n src) = True"
| "is_function v = False"

text \<open>
  Property read \<^verbatim>\<open>v.k\<close> on a value that is neither \<^verbatim>\<open>undefined\<close> nor \<^verbatim>\<open>null\<close>
  (a read on one of those two is a \<^verbatim>\<open>TypeError\<close>, see \<open>member\<close>). Own
  properties only: none of the keys the source reads
  (\<^verbatim>\<open>statusCode\<close>, \<^verbatim>\<open>headers\<close>, \<^verbatim>\<open>template\<close>, \<^verbatim>\<open>functions\<close>, \<^verbatim>\<open>operations\<close>,
  \<^verbatim>\<open>debug\<close>) lives on a built-in prototype.
\<close>

fun get_prop :: "jsval \<Rightarrow> string \<Rightarrow> jsval" where
  "get_prop (JObj ps) k = (case map_of ps k of Some v \<Rightarrow> v | None \<Rightarrow> JUndefined)"
| "get_prop (JError ps) k = (case map_of ps k of Some v \<Rightarrow> v | None \<Rightarrow> JUndefined)"
| "get_prop v k = JUndefined"

text \<open>\<^verbatim>\<open>k in v\<close> restricted to own properties of objects.\<close>

fun has_prop :: "jsval \<Rightarrow> string \<Rightarrow> bool" where
  "has_prop (JObj ps) k = (k \<in> fst ` set ps)"
| "has_prop (JError ps) k = (k \<in> fst ` set ps)"
| "has_prop v k = False"

text \<open>Assignment \<^verbatim>\<open>o.k = v\<close> on an object: an existing key keeps its place, a new
  one goes last.\<close>

fun set_prop :: "jsval \<Rightarrow> string \<Rightarrow> jsval \<Rightarrow> jsval" where
  "set_prop (JObj ps) k v = JObj (AList.update k v ps)"
| "set_prop (JError ps) k v = JError (AList.update k v ps)"
| "set_prop w k v = w"

section \<open>Conversions\<close>

fun digit_char :: "nat \<Rightarrow> char" where
  "digit_char n = char_of (48 + n mod 10)"

fun show_nat :: "nat \<Rightarrow> string" where
  "show_nat n = (if n < 10 then [digit_char n] else show_nat (n div 10) @ [digit_char n])"

declare show_nat.simps [simp del]

definition show_int :: "int \<Rightarrow> string" where
  "show_int i = (if i < 0 then CHR ''-'' # show_nat (nat (- i)) else show_nat (nat i))"

fun join :: "string \<Rightarrow> string list \<Rightarrow> string" where
  "join sep [] = []"
| "join sep [s] = s"
| "join sep (s # t # ss) = s @ sep @ join sep (t # ss)"

text \<open>
  \<^verbatim>\<open>ToString\<close>, which \<^verbatim>\<open>'...' + v\<close> applies to \<open>v\<close>. An array joins its elements with
  commas (\<^verbatim>\<open>null\<close> and \<^verbatim>\<open>undefined\<close> elements as the empty string), a plain object
  is \<^verbatim>\<open>[object Object]\<close>, an \<^verbatim>\<open>Error\<close> follows \<^verbatim>\<open>Error.prototype.toString\<close>.
\<close>

fun to_string :: "jsval \<Rightarrow> string"
  and elem_strings :: "jsval list \<Rightarrow> string list"
  and err_field :: "string \<Rightarrow> string \<Rightarrow> (string \<times> jsval) list \<Rightarrow> string" where
  "to_string JUndefined = ''undefined''"
| "to_string JNull = ''null''"
| "to_string (JBool b) = (if b then ''true'' else ''false'')"
| "to_string (JNum n) = show_int n"
| "to_string JNaN = ''NaN''"
| "to_string (JStr s) = s"
| "to_string (JArr xs) = join '','' (elem_strings xs)"
| "to_string (JObj ps) = ''[object Object]''"
| "to_string (JError ps) =
     (let name = err_field ''name'' ''Error'' ps; msg = err_field ''message'' [] ps
      in if name = [] then msg else if msg = [] then name else name @ '': '' @ msg)"
| "to_string (JFun n src) = src"
| "elem_strings [] = []"
| "elem_strings (x # xs) =
     (if x = JUndefined \<or> x = JNull then [] else to_string x) # elem_strings xs"
| "err_field k d [] = d"
| "err_field k d ((k', v) # ps) =
     (if k = k' then (if v = JUndefined then d else to_string v) else err_field k d ps)"

text \<open>
  \<^verbatim>\<open>ToNumber\<close>, with \<open>None\<close> for \<^verbatim>\<open>NaN\<close>. A string is trimmed of ASCII white space;
  the empty string is 0 and an optionally signed run of decimal digits is its value.
  The other spellings of a number (fraction, exponent, radix prefix, \<^verbatim>\<open>Infinity\<close>)
  denote values outside the integers modelled here and are not recognised.
\<close>

definition is_ws :: "char \<Rightarrow> bool" where
  "is_ws c = (c \<in> set [CHR '' '', CHR 0x09, CHR 0x0A, CHR 0x0B, CHR 0x0C, CHR 0x0D])"

definition trim :: "string \<Rightarrow> string" where
  "trim s = rev (dropWhile is_ws (rev (dropWhile is_ws s)))"

definition is_digit :: "char \<Rightarrow> bool" where
  "is_digit c = (48 \<le> (of_char c :: nat) \<and> (of_char c :: nat) \<le> 57)"

definition digits_value :: "string \<Rightarrow> nat option" where
  "digits_value ds =
     (if ds \<noteq> [] \<and> list_all is_digit ds
      then Some (foldl (\<lambda>acc c. 10 * acc + (of_char c - 48)) 0 ds) else None)"

definition string_to_number :: "string \<Rightarrow> int option" where
  "string_to_number s =
     (case trim s of
        [] \<Rightarrow> Some 0
      | c # cs \<Rightarrow>
          if c = CHR ''-'' then map_option (\<lambda>n. - int n) (digits_value cs)
          else if c = CHR ''+'' then map_option int (digits_value cs)
          else map_option int (digits_value (c # cs)))"

fun to_number :: "jsval \<Rightarrow> int option" where
  "to_number JUndefined = None"
| "to_number JNull = Some 0"
| "to_number (JBool b) = Some (if b then 1 else 0)"
| "to_number (JNum n) = Some n"
| "to_number JNaN = None"
| "to_number (JStr s) = string_to_number s"
| "to_number v = string_to_number (to_string v)"

text \<open>\<^verbatim>\<open>v >= k\<close> for a number literal \<open>k\<close>: false when \<open>v\<close> converts to \<^verbatim>\<open>NaN\<close>.\<close>

definition js_ge :: "jsval \<Rightarrow> int \<Rightarrow> bool" where
  "js_ge v k = (case to_number v of Some n \<Rightarrow> k \<le> n | None \<Rightarrow> False)"

section \<open>JSON.stringify\<close>

definition hex_digit :: "nat \<Rightarrow> char" where
  "hex_digit n = (if n < 10 then char_of (48 + n) else char_of (87 + n))"

definition json_escape :: "char \<Rightarrow> string" where
  "json_escape c =
     (if c = CHR 0x22 then [CHR 0x5C, CHR 0x22]
      else if c = CHR 0x5C then [CHR 0x5C, CHR 0x5C]
      else if c = CHR 0x08 then [CHR 0x5C, CHR ''b'']
      else if c = CHR 0x0C then [CHR 0x5C, CHR ''f'']
      else if c = CHR 0x0A then [CHR 0x5C, CHR ''n'']
      else if c = CHR 0x0D then [CHR 0x5C, CHR ''r'']
      else if c = CHR 0x09 then [CHR 0x5C, CHR ''t'']
      else if (of_char c :: nat) < 32
        then [CHR 0x5C, CHR ''u'', CHR ''0'', CHR ''0'',
              hex_digit ((of_char c :: nat) div 16), hex_digit ((of_char c :: nat) mod 16)]
      else [c])"

definition json_quote :: "string \<Rightarrow> string" where
  "json_quote s = [CHR 0x22] @ concat (map json_escape s) @ [CHR 0x22]"

text \<open>
  The text \<^verbatim>\<open>JSON.stringify(v)\<close> produces, \<open>None\<close> where it returns \<^verbatim>\<open>undefined\<close>
  (for \<^verbatim>\<open>undefined\<close> and for a function). In an array such an element is written
  \<^verbatim>\<open>null\<close>; in an object the member is left out.
\<close>

fun json_text :: "jsval \<Rightarrow> string option"
  and json_elems :: "jsval list \<Rightarrow> string list"
  and json_members :: "(string \<times> jsval) list \<Rightarrow> string list" where
  "json_text JUndefined = None"
| "json_text JNull = Some ''null''"
| "json_text (JBool b) = Some (if b then ''true'' else ''false'')"
| "json_text (JNum n) = Some (show_int n)"
| "json_text JNaN = Some ''null''"
| "json_text (JStr s) = Some (json_quote s)"
| "json_text (JArr xs) = Some (''['' @ join '','' (json_elems xs) @ '']'')"
| "json_text (JObj ps) = Some (''{'' @ join '','' (json_members ps) @ ''}'')"
| "json_text (JError ps) = Some (''{'' @ join '','' (json_members ps) @ ''}'')"
| "json_text (JFun n src) = None"
| "json_elems [] = []"
| "json_elems (x # xs) =
     (case json_text x of None \<Rightarrow> ''null'' | Some s \<Rightarrow> s) # json_elems xs"
| "json_members [] = []"
| "json_members ((k, v) # ps) =
     (case json_text v of
        None \<Rightarrow> json_members ps
      | Some s \<Rightarrow> (json_quote k @ '':'' @ s) # json_members ps)"

definition json_stringify :: "jsval \<Rightarrow> jsval" where
  "json_stringify v = (case json_text v of None \<Rightarrow> JUndefined | Some s \<Rightarrow> JStr s)"

section \<open>The response normaliser\<close>

text \<open>
  A call \<^verbatim>\<open>cb(a, b, c)\<close> of the caller's continuation is recorded as the callee and
  its three arguments; calling a value that is not a function is a \<^verbatim>\<open>TypeError\<close>.
\<close>

record invocation =
  callee :: jsval
  error_arg :: jsval
  result_arg :: jsval
  response_arg :: jsval

definition invoke :: "jsval \<Rightarrow> jsval \<Rightarrow> jsval \<Rightarrow> jsval \<Rightarrow> js_exn + invocation" where
  "invoke cb a b c =
     (if is_function cb
      then Inr \<lparr>callee = cb, error_arg = a, result_arg = b, response_arg = c\<rparr>
      else Inl TypeError)"

text \<open>
  What \<^verbatim>\<open>wrap\<close> returns: \<open>cb\<close> itself, or the closure
  \<^verbatim>\<open>function(err, response, body)\<close> over \<open>cb\<close>, given by what it does when the
  transport calls it.
\<close>

datatype callback =
    Unwrapped jsval
  | Normalizer "jsval \<Rightarrow> jsval \<Rightarrow> jsval \<Rightarrow> js_exn + invocation"

definition errObj :: "jsval \<Rightarrow> jsval \<Rightarrow> jsval" where
  "errObj response body =
     (let e0 = JError [];
          e1 = set_prop e0 ''message'' (JStr (''HTTP code: '' @ to_string (get_prop response ''statusCode'')));
          e2 = set_prop e1 ''statusCode'' (get_prop response ''statusCode'');
          e3 = (if truthy body then set_prop e2 ''body'' body else e2);
          e4 = (if truthy (get_prop response ''headers'')
                then set_prop e3 ''headers'' (get_prop response ''headers'') else e3)
      in e4)"

definition wrap :: "jsval \<Rightarrow> callback" where
  "wrap cb =
     (if truthy cb
      then Normalizer (\<lambda>err response body.
             if \<not> truthy err \<and> truthy response \<and> js_ge (get_prop response ''statusCode'') 400
             then invoke cb (errObj response body) JNull response
             else invoke cb err body response)
      else Unwrapped cb)"

text \<open>The transport calling the function it was handed with \<^verbatim>\<open>(err, response, body)\<close>.
  Only the closure made by \<open>wrap\<close> is callable here; what a transport does with
  an absent callback is its own affair.\<close>

fun deliver :: "callback \<Rightarrow> jsval \<Rightarrow> jsval \<Rightarrow> jsval \<Rightarrow> (js_exn + invocation) option" where
  "deliver (Normalizer f) err response body = Some (f err response body)"
| "deliver (Unwrapped v) err response body = None"


section \<open>The resource facade\<close>

text \<open>
  \<^verbatim>\<open>v.k\<close> where \<open>v\<close> may be \<^verbatim>\<open>undefined\<close> or \<^verbatim>\<open>null\<close>.
\<close>

definition member :: "jsval \<Rightarrow> string \<Rightarrow> js_exn + jsval" where
  "member v k = (if v = JUndefined \<or> v = JNull then Inl TypeError else Inr (get_prop v k))"

text \<open>\<^verbatim>\<open>a && b\<close> and \<^verbatim>\<open>a || b\<close> on values.\<close>

definition js_and :: "jsval \<Rightarrow> jsval \<Rightarrow> jsval" where
  "js_and a b = (if truthy a then b else a)"

definition js_or :: "jsval \<Rightarrow> jsval \<Rightarrow> jsval" where
  "js_or a b = (if truthy a then a else b)"

text \<open>A line handed to a logger: the format and its arguments.\<close>

type_synonym log_entry = "string \<times> jsval list"

text \<open>
  The instance: \<^verbatim>\<open>this._url\<close> and \<^verbatim>\<open>this.request\<close>. The constructor is run with
  \<^verbatim>\<open>new\<close>; its guard \<^verbatim>\<open>!this instanceof RestResource\<close> parses as
  \<^verbatim>\<open>(!this) instanceof RestResource\<close>, which is false, so the guard never fires.
  The module-level \<^verbatim>\<open>request\<close> (the default transport) is a parameter.
  \<^verbatim>\<open>baseUrl.charAt(baseUrl.length - 1)\<close> is the empty string for an empty
  \<open>baseUrl\<close>.
\<close>

record rest_resource =
  url :: string
  request :: jsval

definition RestResource :: "jsval \<Rightarrow> string \<Rightarrow> string \<Rightarrow> jsval \<Rightarrow> rest_resource" where
  "RestResource request_module pluralModelName baseUrl requestFunc =
     \<lparr>url = (if baseUrl \<noteq> [] \<and> last baseUrl = CHR ''/''
             then baseUrl @ pluralModelName
             else baseUrl @ ''/'' @ pluralModelName),
      request = js_or requestFunc request_module\<rparr>"

text \<open>
  \<^verbatim>\<open>_req\<close>: returns the descriptor, and logs it when \<^verbatim>\<open>debug.enabled\<close> (a
  module-level flag, here the parameter \<open>dbg\<close>).
\<close>

definition req :: "bool \<Rightarrow> jsval \<Rightarrow> log_entry list \<times> jsval" where
  "req dbg obj = (if dbg then [(''Request: %j'', [obj])] else [], obj)"

text \<open>
  Every method ends in the call \<^verbatim>\<open>this._request(descriptor, wrap(cb))\<close>, whose
  implementation belongs to the request builder. The call is recorded with what was
  logged on the way.
\<close>

record request_call =
  descriptor :: jsval
  callback_arg :: callback
  debug_log :: "log_entry list"

definition send :: "log_entry list \<times> jsval \<Rightarrow> callback \<Rightarrow> request_call" where
  "send lo cb = \<lparr>descriptor = snd lo, callback_arg = cb, debug_log = fst lo\<rparr>"

definition create :: "bool \<Rightarrow> rest_resource \<Rightarrow> jsval \<Rightarrow> jsval \<Rightarrow> jsval \<Rightarrow> request_call" where
  "create dbg self body options cb =
     send (req dbg (JObj
       [(''method'', JStr ''POST''),
        (''uri'', JStr (url self)),
        (''json'', JBool True),
        (''body'', body),
        (''headers'', JObj [(''options'', js_and options (json_stringify options))])]))
       (wrap cb)"

definition update :: "bool \<Rightarrow> rest_resource \<Rightarrow> jsval \<Rightarrow> jsval \<Rightarrow> jsval \<Rightarrow> jsval \<Rightarrow> request_call" where
  "update dbg self ident body options cb =
     send (req dbg (JObj
       [(''method'', JStr ''PUT''),
        (''uri'', JStr (url self @ ''/'' @ to_string ident)),
        (''json'', JBool True),
        (''body'', body),
        (''headers'', JObj [(''options'', js_and options (json_stringify options))])]))
       (wrap cb)"

definition delete :: "bool \<Rightarrow> rest_resource \<Rightarrow> jsval \<Rightarrow> jsval \<Rightarrow> jsval \<Rightarrow> request_call" where
  "delete dbg self ident options cb =
     send (req dbg (JObj
       [(''method'', JStr ''DELETE''),
        (''uri'', JStr (url self @ ''/'' @ to_string ident)),
        (''json'', JBool True),
        (''headers'', JObj [(''options'', js_and options (json_stringify options))])]))
       (wrap cb)"

definition deleteAll :: "bool \<Rightarrow> rest_resource \<Rightarrow> jsval \<Rightarrow> jsval \<Rightarrow> request_call" where
  "deleteAll dbg self options cb =
     send (req dbg (JObj
       [(''method'', JStr ''DELETE''),
        (''uri'', JStr (url self)),
        (''json'', JBool True),
        (''headers'', JObj [(''options'', js_and options (json_stringify options))])]))
       (wrap cb)"

definition find_resource ::
  "bool \<Rightarrow> rest_resource \<Rightarrow> jsval \<Rightarrow> jsval \<Rightarrow> jsval \<Rightarrow> jsval \<Rightarrow> request_call" where
  "find_resource dbg self ident filter_arg options cb =
     send (req dbg (JObj
       [(''method'', JStr ''GET''),
        (''uri'', JStr (url self @ (if truthy ident then ''/'' @ to_string ident else []))),
        (''json'', JBool True),
        (''qs'', JObj [(''filter'', filter_arg)]),
        (''headers'', JObj [(''options'', js_and options (json_stringify options))])]))
       (wrap cb)"

text \<open>
  \<^verbatim>\<open>all\<close> and \<^verbatim>\<open>query\<close> are one function. An argument that the caller leaves out
  arrives as \<^verbatim>\<open>undefined\<close>, so \<^verbatim>\<open>query(q, cb)\<close> is \<open>query dbg self q cb JUndefined\<close>.
\<close>

definition query :: "bool \<Rightarrow> rest_resource \<Rightarrow> jsval \<Rightarrow> jsval \<Rightarrow> jsval \<Rightarrow> request_call" where
  "query dbg self q options cb =
     (let q1 = js_or q (JObj []);
          shift = (\<not> truthy cb \<and> is_function options);
          cb1 = (if shift then options else cb);
          q2 = (if shift then JObj [] else q1)
      in send (req dbg (JObj
           [(''method'', JStr ''GET''),
            (''uri'', JStr (url self)),
            (''json'', JBool True),
            (''qs'', JObj [(''filter'', q2)]),
            (''headers'', JObj [(''options'', js_and options (json_stringify options))])]))
           (wrap cb1))"

definition all_resources :: "bool \<Rightarrow> rest_resource \<Rightarrow> jsval \<Rightarrow> jsval \<Rightarrow> jsval \<Rightarrow> request_call" where
  "all_resources = query"

section \<open>Compiling the operation spec\<close>

text \<open>
  \<^verbatim>\<open>defineFunctions\<close> reads \<^verbatim>\<open>./rest-crud.json\<close> and drives the request builder of
  \<^verbatim>\<open>./rest-builder\<close>. Neither file is part of this development, so the loaded spec is
  an argument and the builder's entry points, with the message formatter \<^verbatim>\<open>g.f\<close>,
  are parameters: each may throw, and \<open>'b\<close> is whatever a builder is.
\<close>

record 'b externals =
  gf :: "string \<Rightarrow> jsval \<Rightarrow> string"
  compile :: "jsval \<Rightarrow> jsval \<Rightarrow> js_exn + 'b"
  builder_debug :: "'b \<Rightarrow> jsval \<Rightarrow> js_exn + 'b"
  builder_operation :: "'b \<Rightarrow> jsval \<Rightarrow> js_exn + jsval"

text \<open>
  \<^verbatim>\<open>var requestFunc = this.request\<close> runs at module level, where \<^verbatim>\<open>this\<close> is the
  module's initial, empty exports object.
\<close>

definition requestFunc :: jsval where
  "requestFunc = JUndefined"

text \<open>
  The \<^verbatim>\<open>for (var f in functions)\<close> loop over the properties \<open>kvs\<close>: each value is
  replaced by the function the builder makes of it. An exception ends the loop; the
  assignments and log lines before it are not reported.
\<close>

fun mix_in ::
  "'b externals \<Rightarrow> bool \<Rightarrow> 'b \<Rightarrow> (string \<times> jsval) list
     \<Rightarrow> js_exn + ((string \<times> jsval) list \<times> log_entry list)" where
  "mix_in ext dbg b [] = Inr ([], [])"
| "mix_in ext dbg b ((f, v) # kvs) =
     (case builder_operation ext b v of
        Inl e \<Rightarrow> Inl e
      | Inr fn \<Rightarrow>
          (case mix_in ext dbg b kvs of
             Inl e \<Rightarrow> Inl e
           | Inr (kvs', lg) \<Rightarrow>
               Inr ((f, fn) # kvs',
                    (if dbg then [(''Mixing in method: %s %s'', [JStr f, v])] else []) @ lg)))"

text \<open>
  The loop on whatever \<^verbatim>\<open>op.functions\<close> is. An array is walked by index. A
  non-empty string is walked by index as well, and the assignment to its first
  character is a \<^verbatim>\<open>TypeError\<close> in strict mode. Other values have nothing to
  enumerate.
\<close>

definition mix_functions ::
  "'b externals \<Rightarrow> bool \<Rightarrow> 'b \<Rightarrow> jsval \<Rightarrow> js_exn + (jsval \<times> log_entry list)" where
  "mix_functions ext dbg b functions =
     (if \<not> truthy functions then Inr (functions, [])
      else case functions of
        JObj kvs \<Rightarrow>
          (case mix_in ext dbg b kvs of
             Inl e \<Rightarrow> Inl e | Inr (kvs', lg) \<Rightarrow> Inr (JObj kvs', lg))
      | JError kvs \<Rightarrow>
          (case mix_in ext dbg b kvs of
             Inl e \<Rightarrow> Inl e | Inr (kvs', lg) \<Rightarrow> Inr (JError kvs', lg))
      | JArr xs \<Rightarrow>
          (case mix_in ext dbg b (zip (map show_nat [0..<length xs]) xs) of
             Inl e \<Rightarrow> Inl e | Inr (kvs', lg) \<Rightarrow> Inr (JArr (map snd kvs'), lg))
      | JStr s \<Rightarrow>
          (case builder_operation ext b (JStr (take 1 s)) of
             Inl e \<Rightarrow> Inl e | Inr fn \<Rightarrow> Inl TypeError)
      | _ \<Rightarrow> Inr (functions, []))"

text \<open>The body of the \<^verbatim>\<open>forEach\<close> callback for one operation entry \<open>op\<close>: the
  entry as the loop leaves it and the lines logged, or the exception.\<close>

definition define_op ::
  "'b externals \<Rightarrow> jsval \<Rightarrow> jsval \<Rightarrow> js_exn + (jsval \<times> log_entry list)" where
  "define_op ext spec op =
     (case member op ''template'' of
        Inl e \<Rightarrow> Inl e
      | Inr t \<Rightarrow>
          if \<not> truthy t
          then Inl (Thrown (JError
                 [(''message'', JStr (gf ext ''The operation template is missing: %j'' op))]))
          else
            (case compile ext t requestFunc of
               Inl e \<Rightarrow> Inl e
             | Inr b \<Rightarrow>
                 (case builder_debug ext b (get_prop spec ''debug'') of
                    Inl e \<Rightarrow> Inl e
                  | Inr b' \<Rightarrow>
                      (case mix_functions ext (truthy (get_prop spec ''debug'')) b'
                              (get_prop op ''functions'') of
                         Inl e \<Rightarrow> Inl e
                       | Inr (fs, lg) \<Rightarrow>
                           Inr (if truthy (get_prop op ''functions'')
                                then set_prop op ''functions'' fs else op, lg)))))"

fun define_ops ::
  "'b externals \<Rightarrow> jsval \<Rightarrow> jsval list \<Rightarrow> js_exn + (jsval list \<times> log_entry list)" where
  "define_ops ext spec [] = Inr ([], [])"
| "define_ops ext spec (op # ops) =
     (case define_op ext spec op of
        Inl e \<Rightarrow> Inl e
      | Inr (op', lg) \<Rightarrow>
          (case define_ops ext spec ops of
             Inl e \<Rightarrow> Inl e
           | Inr (ops', lg') \<Rightarrow> Inr (op' # ops', lg @ lg')))"

text \<open>
  What a run that does not throw leaves behind: the value returned (the outer
  \<^verbatim>\<open>functions\<close>, which the inner \<^verbatim>\<open>var functions\<close> shadows, so it is still
  \<^verbatim>\<open>{}\<close>), the operation entries as mutated, and the log.
\<close>

record defined =
  returned :: jsval
  operations_after :: "jsval list"
  mixin_log :: "log_entry list"

definition defineFunctions :: "'b externals \<Rightarrow> jsval \<Rightarrow> js_exn + defined" where
  "defineFunctions ext spec =
     (case member spec ''operations'' of
        Inl e \<Rightarrow> Inl e
      | Inr (JArr ops) \<Rightarrow>
          (case define_ops ext spec ops of
             Inl e \<Rightarrow> Inl e
           | Inr (ops', lg) \<Rightarrow>
               Inr \<lparr>returned = JObj [], operations_after = ops', mixin_log = lg\<rparr>)
      | Inr _ \<Rightarrow> Inl TypeError)"

section \<open>Observations on a recorded call\<close>

text \<open>The descriptor's \<^verbatim>\<open>uri\<close> is a string that starts with \<open>p\<close>.\<close>

definition uri_has_prefix :: "string \<Rightarrow> request_call \<Rightarrow> bool" where
  "uri_has_prefix p c = (case get_prop (descriptor c) ''uri'' of JStr u \<Rightarrow> prefix p u | _ \<Rightarrow> False)"

text \<open>
  A builder that accepts everything and a spec of two operation entries, the second
  without a template, to run \<^verbatim>\<open>defineFunctions\<close> on.
\<close>

definition sample_externals :: "jsval externals" where
  "sample_externals =
     \<lparr>gf = (\<lambda>fmt v. fmt @ '' <- '' @ to_string (json_stringify v)),
      compile = (\<lambda>t rf. Inr t),
      builder_debug = (\<lambda>b d. Inr b),
      builder_operation = (\<lambda>b v. Inr (JFun 2 ''operation''))\<rparr>"

definition sample_spec :: jsval where
  "sample_spec =
     JObj [(''debug'', JBool False),
           (''operations'', JArr
              [JObj [(''template'', JObj [(''method'', JStr ''GET'')]),
                     (''functions'', JObj [(''find'', JArr [])])],
               JObj [(''functions'', JObj [])]])]"

section \<open>Properties of the response normaliser\<close>

lemma deliver_wrap:
  assumes "is_function cb"
  shows "deliver (wrap cb) err response body =
    Some (if \<not> truthy err \<and> truthy response \<and> js_ge (get_prop response ''statusCode'') 400
          then Inr \<lparr>callee = cb, error_arg = errObj response body, result_arg = JNull,
                    response_arg = response\<rparr>
          else Inr \<lparr>callee = cb, error_arg = err, result_arg = body, response_arg = response\<rparr>)"
  using assms by (cases cb) (simp_all add: wrap_def invoke_def)

lemma errObj_is_error: "\<exists>ps. errObj response body = JError ps"
  by (simp add: errObj_def Let_def)

lemma errObj_message:
  "get_prop (errObj response body) ''message'' =
     JStr (''HTTP code: '' @ to_string (get_prop response ''statusCode''))"
  by (simp add: errObj_def Let_def)

lemma errObj_statusCode:
  "get_prop (errObj response body) ''statusCode'' = get_prop response ''statusCode''"
  by (simp add: errObj_def Let_def)

lemma errObj_has_body: "has_prop (errObj response body) ''body'' = truthy body"
  by (simp add: errObj_def Let_def)

lemma errObj_body: "truthy body \<Longrightarrow> get_prop (errObj response body) ''body'' = body"
  by (simp add: errObj_def Let_def)

lemma errObj_has_headers:
  "has_prop (errObj response body) ''headers'' = truthy (get_prop response ''headers'')"
  by (simp add: errObj_def Let_def)

lemma errObj_headers:
  "truthy (get_prop response ''headers'') \<Longrightarrow>
     get_prop (errObj response body) ''headers'' = get_prop response ''headers''"
  by (simp add: errObj_def Let_def)

text \<open>
  C1. The function returned by \<^verbatim>\<open>wrap(cb)\<close>, called with a falsy transport error, a
  response that is present and a status code \<^verbatim>\<open>>= 400\<close>, calls \<open>cb\<close> with a
  synthesized \<^verbatim>\<open>Error\<close>, \<^verbatim>\<open>null\<close> as the result and the response as third argument.
  The error's message is \<^verbatim>\<open>"HTTP code: " + statusCode\<close>, its \<^verbatim>\<open>statusCode\<close> is the
  response's, it has a \<^verbatim>\<open>body\<close> field exactly when the body is present and a
  \<^verbatim>\<open>headers\<close> field exactly when \<^verbatim>\<open>response.headers\<close> is. Present is what the
  source tests with \<^verbatim>\<open>if (body)\<close> and \<^verbatim>\<open>if (response.headers)\<close>.
\<close>

theorem wrap_http_error:
  assumes "is_function cb" and "\<not> truthy err" and "truthy response"
    and "js_ge (get_prop response ''statusCode'') 400"
  shows "\<exists>e. deliver (wrap cb) err response body =
             Some (Inr \<lparr>callee = cb, error_arg = e, result_arg = JNull, response_arg = response\<rparr>)
           \<and> (\<exists>ps. e = JError ps)
           \<and> get_prop e ''message'' =
               JStr (''HTTP code: '' @ to_string (get_prop response ''statusCode''))
           \<and> get_prop e ''statusCode'' = get_prop response ''statusCode''
           \<and> has_prop e ''body'' = truthy body
           \<and> (truthy body \<longrightarrow> get_prop e ''body'' = body)
           \<and> has_prop e ''headers'' = truthy (get_prop response ''headers'')
           \<and> (truthy (get_prop response ''headers'') \<longrightarrow>
                get_prop e ''headers'' = get_prop response ''headers'')"
proof (intro exI [of _ "errObj response body"] conjI)
  show "deliver (wrap cb) err response body =
          Some (Inr \<lparr>callee = cb, error_arg = errObj response body, result_arg = JNull,
                     response_arg = response\<rparr>)"
    using assms by (simp add: deliver_wrap)
qed (simp_all add: errObj_is_error errObj_message errObj_statusCode errObj_has_body errObj_body
       errObj_has_headers errObj_headers)

text \<open>
  A 404 with headers and a body: the message reads \<^verbatim>\<open>HTTP code: 404\<close>.
\<close>

theorem wrap_http_error_witness:
  "is_function (JFun 1 ''cb'') \<and> \<not> truthy JNull
   \<and> truthy (JObj [(''statusCode'', JNum 404), (''headers'', JObj [(''etag'', JStr ''x'')])])
   \<and> js_ge (get_prop (JObj [(''statusCode'', JNum 404), (''headers'', JObj [(''etag'', JStr ''x'')])])
        ''statusCode'') 400
   \<and> (\<exists>e. deliver (wrap (JFun 1 ''cb'')) JNull
             (JObj [(''statusCode'', JNum 404), (''headers'', JObj [(''etag'', JStr ''x'')])])
             (JStr ''missing'') =
           Some (Inr \<lparr>callee = JFun 1 ''cb'', error_arg = e, result_arg = JNull,
                  response_arg =
                    JObj [(''statusCode'', JNum 404), (''headers'', JObj [(''etag'', JStr ''x'')])]\<rparr>)
         \<and> get_prop e ''message'' = JStr ''HTTP code: 404''
         \<and> get_prop e ''statusCode'' = JNum 404
         \<and> get_prop e ''body'' = JStr ''missing''
         \<and> get_prop e ''headers'' = JObj [(''etag'', JStr ''x'')])"
proof -
  let ?r = "JObj [(''statusCode'', JNum 404), (''headers'', JObj [(''etag'', JStr ''x'')])]"
  have h1: "is_function (JFun 1 ''cb'')" by simp
  have h2: "\<not> truthy JNull" by simp
  have h3: "truthy ?r" by simp
  have h4: "js_ge (get_prop ?r ''statusCode'') 400" by (simp add: js_ge_def)
  have s: "show_int 404 = ''404''" by code_simp
  show ?thesis
    using h1 h2 h3 h4 wrap_http_error [OF h1 h2 h3 h4, of "JStr ''missing''"]
    by (auto simp add: s)
qed

text \<open>
  C2. When the HTTP-error rule does not apply (the transport error is truthy, or
  there is no response, or the status code is not \<^verbatim>\<open>>= 400\<close>), \<open>cb\<close> is called with
  \<^verbatim>\<open>(transportError, body, response)\<close>. In particular a response with a status code
  below 400 and \<^verbatim>\<open>null\<close> as transport error gives \<^verbatim>\<open>(null, body, response)\<close>.
\<close>

theorem wrap_pass_through:
  assumes "is_function cb"
  shows "(truthy err \<or> \<not> truthy response \<or> \<not> js_ge (get_prop response ''statusCode'') 400 \<longrightarrow>
            deliver (wrap cb) err response body =
              Some (Inr \<lparr>callee = cb, error_arg = err, result_arg = body,
                         response_arg = response\<rparr>))
       \<and> (err = JNull \<and> get_prop response ''statusCode'' = JNum c \<and> c < 400 \<longrightarrow>
            deliver (wrap cb) err response body =
              Some (Inr \<lparr>callee = cb, error_arg = JNull, result_arg = body,
                         response_arg = response\<rparr>))"
proof (intro conjI impI)
  assume "truthy err \<or> \<not> truthy response \<or> \<not> js_ge (get_prop response ''statusCode'') 400"
  then show "deliver (wrap cb) err response body =
      Some (Inr \<lparr>callee = cb, error_arg = err, result_arg = body, response_arg = response\<rparr>)"
    using assms by (auto simp add: deliver_wrap)
next
  assume a: "err = JNull \<and> get_prop response ''statusCode'' = JNum c \<and> c < 400"
  then have "\<not> js_ge (get_prop response ''statusCode'') 400"
    by (simp add: js_ge_def)
  then show "deliver (wrap cb) err response body =
      Some (Inr \<lparr>callee = cb, error_arg = JNull, result_arg = body, response_arg = response\<rparr>)"
    using assms a by (simp add: deliver_wrap)
qed

text \<open>
  A 200 response with a parsed body.
\<close>

theorem wrap_pass_through_witness:
  "is_function (JFun 1 ''cb'')
   \<and> \<not> js_ge (get_prop (JObj [(''statusCode'', JNum 200)]) ''statusCode'') 400
   \<and> get_prop (JObj [(''statusCode'', JNum 200)]) ''statusCode'' = JNum 200 \<and> (200::int) < 400
   \<and> deliver (wrap (JFun 1 ''cb'')) JNull (JObj [(''statusCode'', JNum 200)])
        (JObj [(''id'', JNum 7)]) =
       Some (Inr \<lparr>callee = JFun 1 ''cb'', error_arg = JNull, result_arg = JObj [(''id'', JNum 7)],
                  response_arg = JObj [(''statusCode'', JNum 200)]\<rparr>)"
proof -
  have h1: "is_function (JFun 1 ''cb'')" by simp
  have h2: "\<not> js_ge (get_prop (JObj [(''statusCode'', JNum 200)]) ''statusCode'') 400"
    by (simp add: js_ge_def)
  show ?thesis
    using h1 h2
      wrap_pass_through [OF h1, of JNull "JObj [(''statusCode'', JNum 200)]" "JObj [(''id'', JNum 7)]" 200]
    by simp
qed

text \<open>
  C3, as the code has it. Every call of the function returned by \<^verbatim>\<open>wrap(cb)\<close>
  delivers one triple to \<open>cb\<close>, with the response as third argument. A truthy
  transport error is delivered with the body as the transport gave it, whatever the
  status code: the body is passed through, not replaced by \<^verbatim>\<open>null\<close>. When the
  delivered error is falsy, it is the transport's and the result is the body. When the
  error was synthesized from the status code, the result is \<^verbatim>\<open>null\<close>.
\<close>

theorem wrap_envelope:
  assumes "is_function cb"
  shows "\<exists>inv. deliver (wrap cb) err response body = Some (Inr inv)
           \<and> callee inv = cb \<and> response_arg inv = response
           \<and> (truthy err \<longrightarrow> error_arg inv = err \<and> result_arg inv = body)
           \<and> (\<not> truthy (error_arg inv) \<longrightarrow> error_arg inv = err \<and> result_arg inv = body)
           \<and> (\<not> truthy err \<and> truthy (error_arg inv) \<longrightarrow> result_arg inv = JNull)"
proof (cases "\<not> truthy err \<and> truthy response \<and> js_ge (get_prop response ''statusCode'') 400")
  case True
  obtain ps where e: "errObj response body = JError ps"
    using errObj_is_error by blast
  show ?thesis
    using assms True e
    by (intro exI [of _ "\<lparr>callee = cb, error_arg = errObj response body, result_arg = JNull,
          response_arg = response\<rparr>"]) (simp add: deliver_wrap)
next
  case False
  then show ?thesis
    using assms
    by (intro exI [of _ "\<lparr>callee = cb, error_arg = err, result_arg = body,
          response_arg = response\<rparr>"]) (auto simp add: deliver_wrap)
qed

text \<open>
  A transport error that arrives together with a body.
\<close>

theorem wrap_envelope_witness:
  "is_function (JFun 1 ''cb'')
   \<and> truthy (JError [(''message'', JStr ''socket hang up'')])
   \<and> (\<exists>inv. deliver (wrap (JFun 1 ''cb'')) (JError [(''message'', JStr ''socket hang up'')])
               (JObj [(''statusCode'', JNum 500)]) (JStr ''partial'') = Some (Inr inv)
         \<and> error_arg inv = JError [(''message'', JStr ''socket hang up'')]
         \<and> result_arg inv = JStr ''partial'')"
proof -
  have h1: "is_function (JFun 1 ''cb'')" by simp
  show ?thesis
    using h1
      wrap_envelope [OF h1, of "JError [(''message'', JStr ''socket hang up'')]"
        "JObj [(''statusCode'', JNum 500)]" "JStr ''partial''"]
    by auto
qed

text \<open>
  C3 as stated asks for a \<^verbatim>\<open>null\<close> result whenever the error is not \<^verbatim>\<open>null\<close>. A
  transport error that comes with a partial body is delivered with that body.
\<close>

theorem envelope_error_with_body_counterexample:
  "deliver (wrap (JFun 1 ''cb'')) (JError [(''message'', JStr ''socket hang up'')])
     (JObj [(''statusCode'', JNum 200)]) (JStr ''partial'') =
     Some (Inr \<lparr>callee = JFun 1 ''cb'',
                error_arg = JError [(''message'', JStr ''socket hang up'')],
                result_arg = JStr ''partial'',
                response_arg = JObj [(''statusCode'', JNum 200)]\<rparr>)
   \<and> JError [(''message'', JStr ''socket hang up'')] \<noteq> JNull
   \<and> JStr ''partial'' \<noteq> JNull"
  by (simp add: wrap_def invoke_def)

lemma wrap_falsy: "\<not> truthy cb \<Longrightarrow> wrap cb = Unwrapped cb"
  by (simp add: wrap_def)

lemma callback_arg_send: "callback_arg (send lo cb) = cb"
  by (simp add: send_def)

text \<open>
  C4. With a falsy \<open>cb\<close>, \<^verbatim>\<open>wrap\<close> returns \<open>cb\<close> itself: there is no normalising
  closure to call, so no HTTP-status error is synthesized, and \<^verbatim>\<open>wrap\<close> has no
  logging or throwing path. Every method hands that same \<open>cb\<close> to the transport
  entry point (for \<^verbatim>\<open>query\<close>, unless \<open>options\<close> is a function and takes the
  callback's place).
\<close>

theorem wrap_absent_callback:
  assumes "\<not> truthy cb"
  shows "wrap cb = Unwrapped cb
       \<and> deliver (wrap cb) err response body = None
       \<and> callback_arg (create dbg self b options cb) = Unwrapped cb
       \<and> callback_arg (update dbg self ident b options cb) = Unwrapped cb
       \<and> callback_arg (delete dbg self ident options cb) = Unwrapped cb
       \<and> callback_arg (deleteAll dbg self options cb) = Unwrapped cb
       \<and> callback_arg (find_resource dbg self ident flt options cb) = Unwrapped cb
       \<and> (\<not> is_function options \<longrightarrow> callback_arg (query dbg self q options cb) = Unwrapped cb)"
  using assms
  by (simp add: wrap_falsy callback_arg_send create_def update_def delete_def deleteAll_def
        find_resource_def query_def Let_def)

text \<open>
  The continuation left out.
\<close>

theorem wrap_absent_callback_witness:
  "\<not> truthy JUndefined
   \<and> wrap JUndefined = Unwrapped JUndefined
   \<and> deliver (wrap JUndefined) JNull (JObj [(''statusCode'', JNum 500)]) JUndefined = None
   \<and> \<not> is_function JUndefined
   \<and> callback_arg (query False \<lparr>url = ''http://h/widgets'', request = JUndefined\<rparr>
        (JObj []) JUndefined JUndefined) = Unwrapped JUndefined"
proof -
  have h: "\<not> truthy JUndefined" by simp
  show ?thesis
    using h
      wrap_absent_callback [OF h, of JNull "JObj [(''statusCode'', JNum 500)]" JUndefined
        False "\<lparr>url = ''http://h/widgets'', request = JUndefined\<rparr>" JUndefined JUndefined
        JUndefined JUndefined "JObj []"]
    by simp
qed

section \<open>Properties of the resource facade\<close>

lemma descriptor_send: "descriptor (send (req dbg obj) cb) = obj"
  by (simp add: send_def req_def)

lemmas method_defs =
  create_def update_def delete_def deleteAll_def find_resource_def query_def

text \<open>
  C5. \<^verbatim>\<open>query({name: 'x'}, cb)\<close> against \<^verbatim>\<open>query({name: 'x'}, undefined, cb)\<close>:
  the shorthand call takes its callback from the options slot and then overwrites
  \<open>q\<close> with \<^verbatim>\<open>{}\<close>, so the first descriptor carries an empty filter and the second
  the caller's query. Method, uri, headers and the wrapped callback agree.
\<close>

theorem query_shorthand_discards_q:
  "descriptor (query False (RestResource (JFun 0 ''request'') ''widgets'' ''http://api.example.com'' JUndefined)
       (JObj [(''name'', JStr ''x'')]) (JFun 1 ''cb'') JUndefined) =
     JObj [(''method'', JStr ''GET''), (''uri'', JStr ''http://api.example.com/widgets''),
           (''json'', JBool True), (''qs'', JObj [(''filter'', JObj [])]),
           (''headers'', JObj [(''options'', JUndefined)])]
   \<and> descriptor (query False (RestResource (JFun 0 ''request'') ''widgets'' ''http://api.example.com'' JUndefined)
       (JObj [(''name'', JStr ''x'')]) JUndefined (JFun 1 ''cb'')) =
     JObj [(''method'', JStr ''GET''), (''uri'', JStr ''http://api.example.com/widgets''),
           (''json'', JBool True), (''qs'', JObj [(''filter'', JObj [(''name'', JStr ''x'')])]),
           (''headers'', JObj [(''options'', JUndefined)])]
   \<and> callback_arg (query False
       (RestResource (JFun 0 ''request'') ''widgets'' ''http://api.example.com'' JUndefined)
       (JObj [(''name'', JStr ''x'')]) (JFun 1 ''cb'') JUndefined) =
     callback_arg (query False
       (RestResource (JFun 0 ''request'') ''widgets'' ''http://api.example.com'' JUndefined)
       (JObj [(''name'', JStr ''x'')]) JUndefined (JFun 1 ''cb''))"
  by (simp add: query_def descriptor_send callback_arg_send RestResource_def js_or_def js_and_def
        json_stringify_def)

text \<open>
  In general the shorthand call is the full call with an empty query, whatever \<open>q\<close>
  was.
\<close>

lemma query_shorthand_empty_query:
  assumes "is_function cb"
  shows "query dbg self q cb JUndefined = query dbg self (JObj []) JUndefined cb"
  using assms by (cases cb) (simp_all add: query_def js_or_def js_and_def json_stringify_def)

text \<open>
  C6. \<^verbatim>\<open>find(id, filter, options, cb)\<close> with a falsy \<open>id\<close> builds a descriptor whose
  \<^verbatim>\<open>uri\<close> is the collection URL with nothing appended, whose method is \<^verbatim>\<open>GET\<close> and
  whose \<^verbatim>\<open>qs.filter\<close> is the filter given.
\<close>

theorem find_falsy_id:
  assumes "\<not> truthy ident"
  shows "get_prop (descriptor (find_resource dbg self ident filter_arg options cb)) ''uri'' =
           JStr (url self)
       \<and> get_prop (descriptor (find_resource dbg self ident filter_arg options cb)) ''method'' =
           JStr ''GET''
       \<and> get_prop (get_prop (descriptor (find_resource dbg self ident filter_arg options cb)) ''qs'')
           ''filter'' = filter_arg"
  using assms by (simp add: find_resource_def descriptor_send)

text \<open>
  The id \<^verbatim>\<open>0\<close>.
\<close>

theorem find_falsy_id_witness:
  "\<not> truthy (JNum 0)
   \<and> get_prop (descriptor (find_resource False \<lparr>url = ''http://h/widgets'', request = JUndefined\<rparr>
        (JNum 0) (JObj [(''limit'', JNum 5)]) JUndefined (JFun 1 ''cb''))) ''uri'' =
       JStr ''http://h/widgets''
   \<and> get_prop (get_prop (descriptor (find_resource False
        \<lparr>url = ''http://h/widgets'', request = JUndefined\<rparr>
        (JNum 0) (JObj [(''limit'', JNum 5)]) JUndefined (JFun 1 ''cb''))) ''qs'') ''filter'' =
       JObj [(''limit'', JNum 5)]"
proof -
  have h: "\<not> truthy (JNum 0)" by simp
  show ?thesis
    using h find_falsy_id [OF h, of False "\<lparr>url = ''http://h/widgets'', request = JUndefined\<rparr>"
      "JObj [(''limit'', JNum 5)]" JUndefined "JFun 1 ''cb''"]
    by simp
qed

text \<open>
  C7, as the code has it. In every method the descriptor's \<^verbatim>\<open>headers\<close> object has
  the one key \<^verbatim>\<open>options\<close>. Its value is \<^verbatim>\<open>JSON.stringify(options)\<close> when
  \<open>options\<close> is truthy and \<open>options\<close> itself otherwise: the key stays in place
  with the value \<^verbatim>\<open>undefined\<close> or \<^verbatim>\<open>null\<close> when the argument is absent.
\<close>

theorem options_header:
  "get_prop (descriptor (create dbg self body options cb)) ''headers'' =
     JObj [(''options'', if truthy options then json_stringify options else options)]
   \<and> get_prop (descriptor (update dbg self ident body options cb)) ''headers'' =
     JObj [(''options'', if truthy options then json_stringify options else options)]
   \<and> get_prop (descriptor (delete dbg self ident options cb)) ''headers'' =
     JObj [(''options'', if truthy options then json_stringify options else options)]
   \<and> get_prop (descriptor (deleteAll dbg self options cb)) ''headers'' =
     JObj [(''options'', if truthy options then json_stringify options else options)]
   \<and> get_prop (descriptor (find_resource dbg self ident filter_arg options cb)) ''headers'' =
     JObj [(''options'', if truthy options then json_stringify options else options)]
   \<and> get_prop (descriptor (query dbg self q options cb)) ''headers'' =
     JObj [(''options'', if truthy options then json_stringify options else options)]"
  by (simp add: method_defs descriptor_send js_and_def Let_def)

text \<open>
  An options object, and \<^verbatim>\<open>null\<close> for options.
\<close>

theorem options_header_witness:
  "get_prop (descriptor (create False \<lparr>url = ''http://h/widgets'', request = JUndefined\<rparr>
       (JObj [(''name'', JStr ''a'')]) (JObj [(''userId'', JNum 42)]) (JFun 1 ''cb''))) ''headers'' =
     JObj [(''options'', JStr [CHR ''{'', CHR 0x22, CHR ''u'', CHR ''s'', CHR ''e'', CHR ''r'', CHR ''I'',
       CHR ''d'', CHR 0x22, CHR '':'', CHR ''4'', CHR ''2'', CHR ''}''])]
   \<and> get_prop (descriptor (deleteAll False \<lparr>url = ''http://h/widgets'', request = JUndefined\<rparr>
       JNull (JFun 1 ''cb''))) ''headers'' = JObj [(''options'', JNull)]"
proof -
  have s: "show_int 42 = ''42''" by code_simp
  show ?thesis
    using options_header [of False "\<lparr>url = ''http://h/widgets'', request = JUndefined\<rparr>"
        "JObj [(''name'', JStr ''a'')]" "JObj [(''userId'', JNum 42)]" "JFun 1 ''cb''"]
      options_header [of False "\<lparr>url = ''http://h/widgets'', request = JUndefined\<rparr>"
        _ JNull "JFun 1 ''cb''"]
    by (simp add: json_stringify_def json_quote_def json_escape_def s)
qed

text \<open>
  C7 as stated has the header left out of the descriptor when \<open>options\<close> is absent.
  \<^verbatim>\<open>deleteAll(undefined, cb)\<close> builds \<^verbatim>\<open>headers: {options: undefined}\<close>.
\<close>

theorem options_header_absent_counterexample:
  "get_prop (descriptor (deleteAll False \<lparr>url = ''http://h/widgets'', request = JUndefined\<rparr>
       JUndefined (JFun 1 ''cb''))) ''headers'' = JObj [(''options'', JUndefined)]
   \<and> has_prop (get_prop (descriptor (deleteAll False
       \<lparr>url = ''http://h/widgets'', request = JUndefined\<rparr> JUndefined (JFun 1 ''cb''))) ''headers'')
       ''options''"
  by (simp add: deleteAll_def descriptor_send js_and_def)

text \<open>
  C8, as the code has it. \<^verbatim>\<open>update\<close> and \<^verbatim>\<open>delete\<close> do not check their \<open>id\<close>:
  whatever it is, it is converted to a string and appended after a \<^verbatim>\<open>/\<close>, and the
  request goes to the transport entry point with the wrapped callback. A missing id
  gives a \<^verbatim>\<open>uri\<close> that ends in \<^verbatim>\<open>/undefined\<close>.
\<close>

theorem missing_id_uri:
  "get_prop (descriptor (update dbg self ident body options cb)) ''uri'' =
     JStr (url self @ ''/'' @ to_string ident)
   \<and> get_prop (descriptor (delete dbg self ident options cb)) ''uri'' =
     JStr (url self @ ''/'' @ to_string ident)
   \<and> get_prop (descriptor (update dbg self JUndefined body options cb)) ''uri'' =
     JStr (url self @ ''/undefined'')
   \<and> get_prop (descriptor (delete dbg self JUndefined options cb)) ''uri'' =
     JStr (url self @ ''/undefined'')
   \<and> callback_arg (update dbg self ident body options cb) = wrap cb
   \<and> callback_arg (delete dbg self ident options cb) = wrap cb"
  by (simp add: update_def delete_def descriptor_send callback_arg_send)

text \<open>
  \<^verbatim>\<open>delete\<close> without an id and \<^verbatim>\<open>update\<close> of id 7.
\<close>

theorem missing_id_uri_witness:
  "get_prop (descriptor (delete False \<lparr>url = ''http://h/widgets'', request = JUndefined\<rparr>
       JUndefined JUndefined (JFun 1 ''cb''))) ''uri'' = JStr ''http://h/widgets/undefined''
   \<and> get_prop (descriptor (update False \<lparr>url = ''http://h/widgets'', request = JUndefined\<rparr>
       (JNum 7) (JObj []) JUndefined (JFun 1 ''cb''))) ''uri'' = JStr ''http://h/widgets/7''"
proof -
  have s: "show_int 7 = ''7''" by code_simp
  show ?thesis
    using missing_id_uri [of False "\<lparr>url = ''http://h/widgets'', request = JUndefined\<rparr>"
        JUndefined "JObj []" JUndefined "JFun 1 ''cb''"]
      missing_id_uri [of False "\<lparr>url = ''http://h/widgets'', request = JUndefined\<rparr>"
        "JNum 7" "JObj []" JUndefined "JFun 1 ''cb''"]
    by (simp add: s)
qed

text \<open>
  C8 as stated has the call fail. \<^verbatim>\<open>update(undefined, {name: 'x'}, undefined, cb)\<close>
  returns the recorded request, with the placeholder unresolved in its \<^verbatim>\<open>uri\<close>.
\<close>

theorem update_missing_id_counterexample:
  "update False (RestResource (JFun 0 ''request'') ''widgets'' ''http://api.example.com'' JUndefined)
       JUndefined (JObj [(''name'', JStr ''x'')]) JUndefined (JFun 1 ''cb'') =
     \<lparr>descriptor =
        JObj [(''method'', JStr ''PUT''), (''uri'', JStr ''http://api.example.com/widgets/undefined''),
              (''json'', JBool True), (''body'', JObj [(''name'', JStr ''x'')]),
              (''headers'', JObj [(''options'', JUndefined)])],
      callback_arg = wrap (JFun 1 ''cb''),
      debug_log = []\<rparr>"
  by (simp add: update_def send_def req_def RestResource_def js_or_def js_and_def)


section \<open>Properties of the spec compiler\<close>

lemma define_op_missing:
  assumes "\<not> truthy (get_prop op ''template'')"
  shows "\<exists>e. define_op ext spec op = Inl e"
  using assms by (simp add: define_op_def member_def)

lemma define_op_missing_error:
  assumes "\<not> truthy (get_prop op ''template'')" and "op \<noteq> JUndefined" and "op \<noteq> JNull"
  shows "define_op ext spec op =
    Inl (Thrown (JError [(''message'', JStr (gf ext ''The operation template is missing: %j'' op))]))"
  using assms by (simp add: define_op_def member_def)

lemma define_ops_stops:
  assumes "define_op ext spec op = Inl e"
  shows "\<exists>e'. define_ops ext spec (pre @ op # post) = Inl e'"
proof (induction pre)
  case Nil
  show ?case using assms by simp
next
  case (Cons p pre)
  then obtain e' where "define_ops ext spec (pre @ op # post) = Inl e'" by blast
  then show ?case by (simp split: sum.splits prod.splits)
qed

lemma define_ops_reaches:
  assumes "define_ops ext spec pre = Inr x" and "define_op ext spec op = Inl e"
  shows "define_ops ext spec (pre @ op # post) = Inl e"
  using assms
proof (induction pre arbitrary: x)
  case Nil
  then show ?case by simp
next
  case (Cons p pre)
  from Cons.prems(1) obtain p' lg where p: "define_op ext spec p = Inr (p', lg)"
    by (auto split: sum.splits)
  with Cons.prems(1) obtain y where "define_ops ext spec pre = Inr y"
    by (auto split: sum.splits)
  then have "define_ops ext spec (pre @ op # post) = Inl e"
    using Cons.IH Cons.prems(2) by blast
  with p show ?case by simp
qed

lemma defineFunctions_array:
  assumes "get_prop spec ''operations'' = JArr ops"
  shows "defineFunctions ext spec =
    (case define_ops ext spec ops of
       Inl e \<Rightarrow> Inl e
     | Inr (ops', lg) \<Rightarrow> Inr \<lparr>returned = JObj [], operations_after = ops', mixin_log = lg\<rparr>)"
proof -
  have "spec \<noteq> JUndefined" and "spec \<noteq> JNull"
    using assms by auto
  then show ?thesis
    using assms by (simp add: defineFunctions_def member_def)
qed

text \<open>
  C9. When an entry of \<^verbatim>\<open>spec.operations\<close> has no (truthy) \<^verbatim>\<open>template\<close>,
  \<^verbatim>\<open>defineFunctions\<close> throws: it returns no functions. When the entries before the
  offending one were compiled without an exception, what is thrown is the
  \<^verbatim>\<open>Error\<close> whose message is formatted from the offending entry itself.
\<close>

theorem missing_template_throws:
  assumes "get_prop spec ''operations'' = JArr (pre @ op # post)"
    and "\<not> truthy (get_prop op ''template'')"
  shows "(\<exists>e. defineFunctions ext spec = Inl e)
       \<and> (op \<noteq> JUndefined \<and> op \<noteq> JNull \<and> (\<exists>x. define_ops ext spec pre = Inr x) \<longrightarrow>
            defineFunctions ext spec =
              Inl (Thrown (JError
                [(''message'', JStr (gf ext ''The operation template is missing: %j'' op))])))"
proof (intro conjI impI)
  obtain e where "define_op ext spec op = Inl e"
    using define_op_missing [OF assms(2)] by blast
  then obtain e' where "define_ops ext spec (pre @ op # post) = Inl e'"
    using define_ops_stops by blast
  then show "\<exists>e. defineFunctions ext spec = Inl e"
    by (simp add: defineFunctions_array [OF assms(1)])
next
  assume a: "op \<noteq> JUndefined \<and> op \<noteq> JNull \<and> (\<exists>x. define_ops ext spec pre = Inr x)"
  then obtain x where x: "define_ops ext spec pre = Inr x" by blast
  have "define_op ext spec op =
      Inl (Thrown (JError [(''message'', JStr (gf ext ''The operation template is missing: %j'' op))]))"
    using define_op_missing_error assms(2) a by blast
  then have "define_ops ext spec (pre @ op # post) =
      Inl (Thrown (JError [(''message'', JStr (gf ext ''The operation template is missing: %j'' op))]))"
    using define_ops_reaches [OF x] by blast
  then show "defineFunctions ext spec =
      Inl (Thrown (JError [(''message'', JStr (gf ext ''The operation template is missing: %j'' op))]))"
    by (simp add: defineFunctions_array [OF assms(1)])
qed

text \<open>
  The sample spec: its first entry compiles, its second has no template.
\<close>

theorem missing_template_throws_witness:
  "get_prop sample_spec ''operations'' =
     JArr ([JObj [(''template'', JObj [(''method'', JStr ''GET'')]),
                  (''functions'', JObj [(''find'', JArr [])])]]
           @ JObj [(''functions'', JObj [])] # [])
   \<and> \<not> truthy (get_prop (JObj [(''functions'', JObj [])]) ''template'')
   \<and> (\<exists>x. define_ops sample_externals sample_spec
          [JObj [(''template'', JObj [(''method'', JStr ''GET'')]),
                 (''functions'', JObj [(''find'', JArr [])])]] = Inr x)
   \<and> defineFunctions sample_externals sample_spec =
       Inl (Thrown (JError [(''message'', JStr (gf sample_externals
          ''The operation template is missing: %j'' (JObj [(''functions'', JObj [])])))]))"
proof -
  let ?op1 = "JObj [(''template'', JObj [(''method'', JStr ''GET'')]),
                    (''functions'', JObj [(''find'', JArr [])])]"
  let ?op2 = "JObj [(''functions'', JObj [])]"
  have h1: "get_prop sample_spec ''operations'' = JArr ([?op1] @ ?op2 # [])"
    by (simp add: sample_spec_def)
  have h2: "\<not> truthy (get_prop ?op2 ''template'')" by simp
  have h3: "\<exists>x. define_ops sample_externals sample_spec [?op1] = Inr x"
    by (simp add: define_op_def member_def sample_externals_def sample_spec_def
          mix_functions_def requestFunc_def)
  show ?thesis
    using h1 h2 h3 missing_template_throws [OF h1 h2, of sample_externals]
    by simp
qed

section \<open>Properties of the constructor\<close>

lemma RestResource_url:
  "url (RestResource rm name base rf) =
     (if base \<noteq> [] \<and> last base = CHR ''/'' then base @ name else base @ ''/'' @ name)"
  by (simp add: RestResource_def)

lemma RestResource_one_slash:
  "\<exists>stem. url (RestResource rm name base rf) = stem @ ''/'' @ name
          \<and> (base = stem \<or> base = stem @ ''/'')"
proof (cases "base \<noteq> [] \<and> last base = CHR ''/''")
  case True
  then have b: "butlast base @ ''/'' = base"
    using append_butlast_last_id [of base] by auto
  have "url (RestResource rm name base rf) = base @ name"
    using True by (simp add: RestResource_url)
  also have "\<dots> = (butlast base @ ''/'') @ name"
    by (simp only: b)
  finally have "url (RestResource rm name base rf) = butlast base @ ''/'' @ name"
    by simp
  with b show ?thesis
    by (intro exI [of _ "butlast base"]) simp
next
  case False
  then show ?thesis
    by (intro exI [of _ base]) (auto simp add: RestResource_url)
qed

lemma uri_has_prefix_send:
  assumes "get_prop obj ''uri'' = JStr (p @ s)"
  shows "uri_has_prefix p (send (req dbg obj) cb)"
  using assms by (simp add: uri_has_prefix_def descriptor_send)

text \<open>
  C10. The constructor appends the model name to a \<open>baseUrl\<close> that ends in
  \<^verbatim>\<open>/\<close> and inserts one \<^verbatim>\<open>/\<close> otherwise, so the URL is a stem, one \<^verbatim>\<open>/\<close> and the
  model name, where \<open>baseUrl\<close> is the stem with or without that \<^verbatim>\<open>/\<close>. The \<^verbatim>\<open>uri\<close> of
  every descriptor the instance's methods build starts with this URL.
\<close>

theorem collection_url:
  assumes "self = RestResource rm name base rf"
  shows "url self = (if base \<noteq> [] \<and> last base = CHR ''/'' then base @ name
                     else base @ ''/'' @ name)
       \<and> (\<exists>stem. url self = stem @ ''/'' @ name \<and> (base = stem \<or> base = stem @ ''/''))
       \<and> uri_has_prefix (url self) (create dbg self body options cb)
       \<and> uri_has_prefix (url self) (update dbg self ident body options cb)
       \<and> uri_has_prefix (url self) (delete dbg self ident options cb)
       \<and> uri_has_prefix (url self) (deleteAll dbg self options cb)
       \<and> uri_has_prefix (url self) (find_resource dbg self ident filter_arg options cb)
       \<and> uri_has_prefix (url self) (query dbg self q options cb)
       \<and> uri_has_prefix (url self) (all_resources dbg self q options cb)"
proof (intro conjI)
  show "url self = (if base \<noteq> [] \<and> last base = CHR ''/'' then base @ name
                    else base @ ''/'' @ name)"
    using assms by (simp only: RestResource_url)
  show "\<exists>stem. url self = stem @ ''/'' @ name \<and> (base = stem \<or> base = stem @ ''/'')"
    using assms RestResource_one_slash by simp
  show "uri_has_prefix (url self) (create dbg self body options cb)"
    unfolding create_def by (rule uri_has_prefix_send [where s = "[]"]) simp
  show "uri_has_prefix (url self) (update dbg self ident body options cb)"
    unfolding update_def by (rule uri_has_prefix_send [where s = "''/'' @ to_string ident"]) simp
  show "uri_has_prefix (url self) (delete dbg self ident options cb)"
    unfolding delete_def by (rule uri_has_prefix_send [where s = "''/'' @ to_string ident"]) simp
  show "uri_has_prefix (url self) (deleteAll dbg self options cb)"
    unfolding deleteAll_def by (rule uri_has_prefix_send [where s = "[]"]) simp
  show "uri_has_prefix (url self) (find_resource dbg self ident filter_arg options cb)"
    unfolding find_resource_def
    by (rule uri_has_prefix_send
          [where s = "if truthy ident then ''/'' @ to_string ident else []"]) simp
  show q: "uri_has_prefix (url self) (query dbg self q options cb)"
    unfolding query_def Let_def by (rule uri_has_prefix_send [where s = "[]"]) simp
  show "uri_has_prefix (url self) (all_resources dbg self q options cb)"
    using q by (simp add: all_resources_def)
qed

text \<open>
  A base URL with and without the trailing \<^verbatim>\<open>/\<close>.
\<close>

theorem collection_url_witness:
  "url (RestResource (JFun 0 ''request'') ''widgets'' ''http://api.example.com/'' JUndefined) =
     ''http://api.example.com/widgets''
   \<and> url (RestResource (JFun 0 ''request'') ''widgets'' ''http://api.example.com'' JUndefined) =
     ''http://api.example.com/widgets''
   \<and> uri_has_prefix ''http://api.example.com/widgets''
       (update False (RestResource (JFun 0 ''request'') ''widgets'' ''http://api.example.com/''
          JUndefined) (JNum 7) (JObj []) JUndefined (JFun 1 ''cb''))"
proof -
  have a: "RestResource (JFun 0 ''request'') ''widgets'' ''http://api.example.com/'' JUndefined =
      \<lparr>url = ''http://api.example.com/widgets'', request = JFun 0 ''request''\<rparr>"
    by (simp add: RestResource_def js_or_def)
  have b: "RestResource (JFun 0 ''request'') ''widgets'' ''http://api.example.com'' JUndefined =
      \<lparr>url = ''http://api.example.com/widgets'', request = JFun 0 ''request''\<rparr>"
    by (simp add: RestResource_def js_or_def)
  show ?thesis
    using collection_url [OF a [symmetric], of False "JObj []" JUndefined "JFun 1 ''cb''" "JNum 7"
        JUndefined JUndefined]
      collection_url [OF b [symmetric], of False "JObj []" JUndefined "JFun 1 ''cb''" "JNum 7"
        JUndefined JUndefined]
    by (simp add: a b)
qed

end
